theory Spec2Isabelle
  imports Main "HOL-Library.Word"
begin

section \<open>JavaScript strings\<close>

text \<open>
  A JavaScript string is a sequence of 16-bit code units. String literals of the source
  are written \<open>js ''...''\<close>; a character outside ASCII is written as its code unit
  (\<open>0x2026\<close> for the ellipsis, \<open>0xA0\<close> for the no-break space).
\<close>

type_synonym jsstring = "16 word list"

definition cu :: "char \<Rightarrow> 16 word" where
  "cu c = of_nat (of_char c)"

definition js :: "string \<Rightarrow> jsstring" where
  "js s = map cu s"

text \<open>
  \<open>str.replace(/c/g, r)\<close> for a pattern that is one literal character and a replacement
  text without \<open>$\<close>: every occurrence of the character is replaced, left to right.
\<close>

fun replace_all :: "16 word \<Rightarrow> jsstring \<Rightarrow> jsstring \<Rightarrow> jsstring" where
  "replace_all c r [] = []"
| "replace_all c r (x # xs) = (if x = c then r else [x]) @ replace_all c r xs"

text \<open>Decimal rendering of a non-negative integer, as a template literal prints it.\<close>

function number_to_string :: "nat \<Rightarrow> jsstring" where
  "number_to_string n =
     (if n < 10 then [0x30 + of_nat n]
      else number_to_string (n div 10) @ [0x30 + of_nat (n mod 10)])"
  by pat_completeness auto
termination
  by (relation "measure (\<lambda>n. n)") auto

declare number_to_string.simps [simp del]


section \<open>The two definitions of escapeHtml\<close>

text \<open>
  The later definition (the one in force in the second copy of the script, where it
  shadows the earlier one):
  \<^verbatim>\<open>str.replace(/&/g,"&amp;").replace(/</g,"&lt;").replace(/>/g,"&gt;").replace(/"/g,"&quot;")\<close>
\<close>

definition escapeHtml_regex :: "jsstring \<Rightarrow> jsstring" where
  "escapeHtml_regex str =
     replace_all (cu (CHR 0x22)) (js ''&quot;'')
       (replace_all (cu CHR ''>'') (js ''&gt;'')
         (replace_all (cu CHR ''<'') (js ''&lt;'')
           (replace_all (cu CHR ''&'') (js ''&amp;'') str)))"

text \<open>
  The earlier definition assigns the text to \<open>textContent\<close> of a fresh \<open>div\<close> and reads
  \<open>innerHTML\<close> back. Both are browser built-ins: the element then holds one text node, and
  its serialisation is the text escaped by the HTML standard's rule for escaping the data
  of a text node: \<open>&\<close> first, then U+00A0, then \<open><\<close> and \<open>>\<close>. The double quote is
  escaped in attribute values only.
\<close>

definition escape_text_node :: "jsstring \<Rightarrow> jsstring" where
  "escape_text_node s =
     replace_all (cu CHR ''>'') (js ''&gt;'')
       (replace_all (cu CHR ''<'') (js ''&lt;'')
         (replace_all 0xA0 (js ''&nbsp;'')
           (replace_all (cu CHR ''&'') (js ''&amp;'') s)))"

definition escapeHtml_dom :: "jsstring \<Rightarrow> jsstring" where
  "escapeHtml_dom text = escape_text_node text"

text \<open>
  The entity table as the specification words it: each of \<open>&\<close>, \<open><\<close>, \<open>>\<close> and the double
  quote stands for its entity, every other code unit for itself.
\<close>

definition html_entity :: "16 word \<Rightarrow> jsstring" where
  "html_entity c =
     (if c = cu CHR ''&'' then js ''&amp;''
      else if c = cu CHR ''<'' then js ''&lt;''
      else if c = cu CHR ''>'' then js ''&gt;''
      else if c = cu (CHR 0x22) then js ''&quot;''
      else [c])"

text \<open>What one code unit of a text node becomes when the node is serialised.\<close>

definition text_entity :: "16 word \<Rightarrow> jsstring" where
  "text_entity c =
     (if c = cu CHR ''&'' then js ''&amp;''
      else if c = 0xA0 then js ''&nbsp;''
      else if c = cu CHR ''<'' then js ''&lt;''
      else if c = cu CHR ''>'' then js ''&gt;''
      else [c])"


section \<open>Nodes and devices\<close>

text \<open>
  A node object as the server sends it. The fields the script reads or writes are named
  (\<open>node_id\<close> is the property \<open>id\<close>); every other property travels in the record's
  extension. \<open>'v\<close> is the type of the scalar values (numbers, or nothing) that the script
  only copies.
\<close>

record 'v node =
  node_id :: jsstring
  longName :: jsstring
  lastHeard :: int
  batteryLevel :: 'v
  latitude :: 'v
  longitude :: 'v
  seenBy :: "jsstring option"

text \<open>A device of \<open>/api/devices\<close>; \<open>nodes\<close> is \<open>None\<close> when \<open>d.nodes\<close> is missing.\<close>

record ('v, 'm) device =
  name :: jsstring
  connected :: bool
  nodes :: "('v, 'm) node_scheme list option"

record badge =
  textContent :: jsstring
  className :: jsstring


section \<open>loadAll: collecting the nodes of all devices\<close>

text \<open>
  The inner loop over one device's nodes and the outer loop over the devices; the state
  is the set \<open>seen\<close> and the array \<open>nodesData\<close>.
\<close>

fun collect_nodes ::
  "jsstring \<Rightarrow> ('v, 'm) node_scheme list
   \<Rightarrow> jsstring set \<times> ('v, 'm) node_scheme list
   \<Rightarrow> jsstring set \<times> ('v, 'm) node_scheme list" where
  "collect_nodes d_name [] (seen, nodesData) = (seen, nodesData)"
| "collect_nodes d_name (n # ns) (seen, nodesData) =
     (if node_id n \<notin> seen
      then collect_nodes d_name ns
             (insert (node_id n) seen, nodesData @ [n\<lparr>seenBy := Some d_name\<rparr>])
      else collect_nodes d_name ns (seen, nodesData))"

fun collect_devices ::
  "('v, 'm) device list
   \<Rightarrow> jsstring set \<times> ('v, 'm) node_scheme list
   \<Rightarrow> jsstring set \<times> ('v, 'm) node_scheme list" where
  "collect_devices [] st = st"
| "collect_devices (d # ds) st =
     collect_devices ds
       (case nodes d of None \<Rightarrow> st | Some ns \<Rightarrow> collect_nodes (name d) ns st)"

text \<open>The value of \<open>nodesData\<close> after \<open>loadAll\<close> has received the device list.\<close>

definition loadAll :: "('v, 'm) device list \<Rightarrow> ('v, 'm) node_scheme list" where
  "loadAll devices = snd (collect_devices devices ({}, []))"

text \<open>
  For the statements below: every report of a node by a device, in the order of the
  device list, tagged with the reporting device; and the sublist of a list of reports that
  keeps, for each id not in \<open>seen\<close>, its first report only.
\<close>

definition observations :: "('v, 'm) device list \<Rightarrow> ('v, 'm) node_scheme list" where
  "observations devices =
     concat (map (\<lambda>d. case nodes d of
                          None \<Rightarrow> []
                        | Some ns \<Rightarrow> map (\<lambda>n. n\<lparr>seenBy := Some (name d)\<rparr>) ns) devices)"

fun first_wins ::
  "jsstring set \<Rightarrow> ('v, 'm) node_scheme list \<Rightarrow> ('v, 'm) node_scheme list" where
  "first_wins seen [] = []"
| "first_wins seen (n # ns) =
     (if node_id n \<in> seen then first_wins seen ns
      else n # first_wins (insert (node_id n) seen) ns)"


section \<open>updateConnectionStatus\<close>

text \<open>The text and class written to the connection-status element.\<close>

definition updateConnectionStatus :: "('v, 'm) device list \<Rightarrow> badge" where
  "updateConnectionStatus devices =
     (let allConnected = list_all connected devices;
          anyConnected = list_ex connected devices
      in if allConnected \<and> length devices > 0
         then \<lparr>textContent = number_to_string (length devices) @ js '' devices connected'',
               className = js ''badge badge-online''\<rparr>
         else if anyConnected
         then \<lparr>textContent = js ''Partial connection'',
               className = js ''badge badge-online''\<rparr>
         else \<lparr>textContent = js ''Disconnected'', className = js ''badge badge-offline''\<rparr>)"


section \<open>The position_update event\<close>

record 'v position =
  pos_latitude :: 'v
  pos_longitude :: 'v

text \<open>The event's payload; \<open>pu_position\<close> is \<open>None\<close> when \<open>data.position\<close> is missing.\<close>

record 'v position_update =
  pu_from :: jsstring
  pu_position :: "'v position option"

text \<open>\<open>Array.prototype.find\<close> returns the first match; here, where it stands.\<close>

fun find_index :: "('a \<Rightarrow> bool) \<Rightarrow> 'a list \<Rightarrow> nat option" where
  "find_index P [] = None"
| "find_index P (x # xs) =
     (if P x then Some 0 else map_option Suc (find_index P xs))"

text \<open>
  The handler writes to the node object found, which stays in its place in \<open>nodesData\<close>;
  \<open>updateMap\<close> then only reads the array.
\<close>

definition on_position_update ::
  "'v position_update \<Rightarrow> ('v, 'm) node_scheme list \<Rightarrow> ('v, 'm) node_scheme list" where
  "on_position_update data nodesData =
     (case find_index (\<lambda>n. node_id n = pu_from data) nodesData of
        None \<Rightarrow> nodesData
      | Some i \<Rightarrow>
          (case pu_position data of
             None \<Rightarrow> nodesData
           | Some p \<Rightarrow>
               nodesData[i := (nodesData ! i)\<lparr>latitude := pos_latitude p,
                                                longitude := pos_longitude p\<rparr>]))"


section \<open>renderTopologyGraph: the links\<close>

text \<open>
  The snapshot of \<open>/api/topology\<close>: \<open>topo_id\<close> is a node's \<open>id\<close>; \<open>edge_from\<close>,
  \<open>edge_to\<close>, \<open>edge_snr\<close> and \<open>edge_rssi\<close> are an edge's \<open>from\<close>, \<open>to\<close>, \<open>snr\<close> and
  \<open>rssi\<close>. A missing \<open>nodes\<close> or \<open>edges\<close> is the empty list.
\<close>

record topo_node =
  topo_id :: jsstring

record 'v edge =
  edge_from :: jsstring
  edge_to :: jsstring
  edge_snr :: 'v
  edge_rssi :: 'v

text \<open>A link holds the indices of its two nodes; \<open>None\<close> is JavaScript's \<open>undefined\<close>.\<close>

record 'v link =
  source :: "nat option"
  target :: "nat option"
  snr :: 'v
  rssi :: 'v

record ('v, 'm) snapshot =
  topo_nodes :: "'m topo_node_scheme list"
  topo_edges :: "'v edge list"

text \<open>
  \<open>nodeMap\<close> is an object literal \<open>{}\<close>, so its prototype is \<open>Object.prototype\<close>: reading
  a key it does not own yields the member of that name inherited from the prototype, when
  there is one. The node stored under a key is represented by its index in \<open>nodes\<close>
  (\<open>n.index = i\<close>).
\<close>

definition object_prototype_members :: "jsstring list" where
  "object_prototype_members =
     map js [''constructor'', ''hasOwnProperty'', ''isPrototypeOf'', ''propertyIsEnumerable'',
             ''toLocaleString'', ''toString'', ''valueOf'', ''__proto__'',
             ''__defineGetter__'', ''__defineSetter__'', ''__lookupGetter__'',
             ''__lookupSetter__'']"

datatype property = Own nat | Inherited | Absent

fun build_nodeMap ::
  "'m topo_node_scheme list \<Rightarrow> nat \<Rightarrow> (jsstring \<rightharpoonup> nat) \<Rightarrow> (jsstring \<rightharpoonup> nat)" where
  "build_nodeMap [] i nodeMap = nodeMap"
| "build_nodeMap (n # ns) i nodeMap = build_nodeMap ns (Suc i) (nodeMap(topo_id n \<mapsto> i))"

definition nodeMap_get :: "(jsstring \<rightharpoonup> nat) \<Rightarrow> jsstring \<Rightarrow> property" where
  "nodeMap_get nodeMap key =
     (case nodeMap key of
        Some i \<Rightarrow> Own i
      | None \<Rightarrow> if key \<in> set object_prototype_members then Inherited else Absent)"

text \<open>
  A node object and an inherited member (a function, or the prototype itself) are
  truthy, \<open>undefined\<close> is not; an inherited member has no \<open>index\<close>.
\<close>

fun truthy :: "property \<Rightarrow> bool" where
  "truthy (Own i) = True"
| "truthy Inherited = True"
| "truthy Absent = False"

fun index_of :: "property \<Rightarrow> nat option" where
  "index_of (Own i) = Some i"
| "index_of Inherited = None"
| "index_of Absent = None"

fun build_links :: "(jsstring \<rightharpoonup> nat) \<Rightarrow> 'v edge list \<Rightarrow> 'v link list" where
  "build_links nodeMap [] = []"
| "build_links nodeMap (e # es) =
     (let source = nodeMap_get nodeMap (edge_from e);
          target = nodeMap_get nodeMap (edge_to e)
      in if truthy source \<and> truthy target
         then \<lparr>source = index_of source, target = index_of target,
               snr = edge_snr e, rssi = edge_rssi e\<rparr> # build_links nodeMap es
         else build_links nodeMap es)"

text \<open>
  The array \<open>links\<close> that \<open>renderTopologyGraph\<close> hands to the force layout.
  \<open>Placeholder\<close>: the node list is empty and the function returns before building links.
  \<open>PrototypeReplaced\<close>: a node's id is \<open>__proto__\<close>, so the assignment
  \<open>nodeMap[n.id] = n\<close> replaces the prototype of \<open>nodeMap\<close> by that node instead of adding
  a key; later reads then depend on properties of the node that this model does not carry.
\<close>

datatype 'v topology_view = Placeholder | PrototypeReplaced | Graph "'v link list"

definition renderTopologyGraph :: "('v, 'm) snapshot \<Rightarrow> 'v topology_view" where
  "renderTopologyGraph data =
     (let nodes = topo_nodes data; edges = topo_edges data
      in if nodes = [] then Placeholder
         else if js ''__proto__'' \<in> topo_id ` set nodes then PrototypeReplaced
         else Graph (build_links (build_nodeMap nodes 0 Map.empty) edges))"


section \<open>Traceroute: the result list, the poller and the socket event\<close>

record tr =
  tr_id :: jsstring
  tr_device :: jsstring
  tr_destination :: jsstring
  tr_status :: jsstring
  tr_route :: "jsstring list option"

text \<open>
  The part of the page the traceroute code writes: for each request id, the status badge
  \<open>tr-status-<id>\<close> and the markup of the hop list \<open>tr-hops-<id>\<close>, when the element
  exists. Node names and ids are taken to hold no markup, so that no other element carries
  these element ids. The traceroute map and the toasts are not part of this state.
\<close>

record page =
  tr_status_el :: "jsstring \<rightharpoonup> badge"
  tr_hops_el :: "jsstring \<rightharpoonup> jsstring"

definition resolveNodeName :: "('v, 'm) node_scheme list \<Rightarrow> jsstring \<Rightarrow> jsstring" where
  "resolveNodeName nodesData ident =
     (if ident = [] then js ''?''
      else case find (\<lambda>n. node_id n = ident) nodesData of
             Some node \<Rightarrow> longName node
           | None \<Rightarrow> ident)"

definition tr_hop :: "jsstring \<Rightarrow> jsstring" where
  \<open>tr_hop label = js ''<span class="tr-hop">'' @ label @ js ''</span>''\<close>

definition tr_hop_arrow :: jsstring where
  \<open>tr_hop_arrow = js ''<span class="tr-hop-arrow">'' @ [0x2192] @ js ''</span>''\<close>

definition pending_badge :: badge where
  "pending_badge =
     \<lparr>textContent = js ''Pending'' @ [0x2026], className = js ''badge badge-pending''\<rparr>"

definition complete_badge :: badge where
  "complete_badge =
     \<lparr>textContent = js ''Complete'', className = js ''badge badge-complete''\<rparr>"

definition timeout_badge :: badge where
  "timeout_badge =
     \<lparr>textContent = js ''Timeout'', className = js ''badge badge-offline''\<rparr>"

definition addTracerouteResult :: "tr \<Rightarrow> page \<Rightarrow> page" where
  \<open>addTracerouteResult t pg =
     pg\<lparr>tr_status_el := (tr_status_el pg)(tr_id t \<mapsto> pending_badge),
        tr_hops_el := (tr_hops_el pg)(tr_id t \<mapsto>
           [0x0A] @ js ''            <span class="muted">Waiting for response'' @ [0x2026]
           @ js ''</span>'' @ [0x0A] @ js ''        '')\<rparr>\<close>

definition updateTracerouteResult ::
  "jsstring \<Rightarrow> tr \<Rightarrow> ('v, 'm) node_scheme list \<Rightarrow> page \<Rightarrow> page" where
  \<open>updateTracerouteResult ident t nodesData pg =
     (let pg1 =
            (case tr_status_el pg ident of
               Some statusEl \<Rightarrow>
                 pg\<lparr>tr_status_el := (tr_status_el pg)(ident \<mapsto>
                       statusEl\<lparr>textContent := js ''Complete'',
                               className := js ''badge badge-complete''\<rparr>)\<rparr>
             | None \<Rightarrow> pg)
      in case tr_hops_el pg1 ident of
           None \<Rightarrow> pg1
         | Some hopsEl \<Rightarrow>
             (if tr_route t \<noteq> None \<and> tr_route t \<noteq> Some []
              then let hops = map (\<lambda>hop. tr_hop (resolveNodeName nodesData hop))
                                (the (tr_route t));
                       srcName = resolveNodeName nodesData
                                   (if tr_device t \<noteq> [] then tr_device t else js ''You'');
                       destName = resolveNodeName nodesData (tr_destination t);
                       fullPath = [tr_hop srcName] @ concat (map (\<lambda>h. [tr_hop_arrow, h]) hops)
                                  @ [tr_hop_arrow] @ [tr_hop destName]
                   in pg1\<lparr>tr_hops_el := (tr_hops_el pg1)(ident \<mapsto> concat fullPath)\<rparr>
              else pg1\<lparr>tr_hops_el := (tr_hops_el pg1)(ident \<mapsto>
                         tr_hop (resolveNodeName nodesData (tr_destination t))
                         @ js '' <span class="muted">(direct, no hops)</span>'')\<rparr>))\<close>

text \<open>The branch of the poller that gives up.\<close>

definition show_timeout :: "jsstring \<Rightarrow> page \<Rightarrow> page" where
  \<open>show_timeout ident pg =
     (let pg1 =
            (case tr_status_el pg ident of
               Some statusEl \<Rightarrow>
                 pg\<lparr>tr_status_el := (tr_status_el pg)(ident \<mapsto>
                       statusEl\<lparr>textContent := js ''Timeout'',
                               className := js ''badge badge-offline''\<rparr>)\<rparr>
             | None \<Rightarrow> pg)
      in case tr_hops_el pg1 ident of
           Some hopsEl \<Rightarrow>
             pg1\<lparr>tr_hops_el := (tr_hops_el pg1)(ident \<mapsto>
               js ''<span class="muted">No response received (node may be out of range)</span>'')\<rparr>
         | None \<Rightarrow> pg1)\<close>

text \<open>
  The poller. \<open>pollTraceroute\<close> sets \<open>attempts\<close> to 0 and installs an interval, 2 seconds
  apart, whose callback is asynchronous. Two kinds of event drive it, each run to its end
  before the next:
  \<^item> \<open>Tick\<close>: the interval fires; the callback increments \<open>attempts\<close>, issues the fetch
    of this poll and waits for it. After \<open>clearInterval\<close> the interval fires no more.
  \<^item> \<open>Settled k outcome\<close>: the fetch issued by the \<open>k\<close>-th tick settles, and the rest of
    that callback runs with the value \<open>attempts\<close> has by then. \<open>fetchJSON\<close> yields the
    response body (\<open>Response\<close>) or throws (\<open>Failed\<close>: network failure, a status that is not
    OK, a body that is not JSON).
  Nothing makes a fetch settle before the next tick, and a fetch may never settle.
\<close>

datatype 'a fetched = Response 'a | Failed

datatype poll_event = Tick | Settled nat "tr fetched"

definition maxAttempts :: nat where
  "maxAttempts = 30"

text \<open>
  The poller's state: the counter, whether \<open>clearInterval\<close> has been called, the polls
  whose fetch has not settled, and the page.
\<close>

record poller =
  attempts :: nat
  cleared :: bool
  in_flight :: "nat set"
  shown :: page

definition pollTraceroute :: "page \<Rightarrow> poller" where
  "pollTraceroute pg = \<lparr>attempts = 0, cleared = False, in_flight = {}, shown = pg\<rparr>"

fun poll_step ::
  "jsstring \<Rightarrow> ('v, 'm) node_scheme list \<Rightarrow> poller \<Rightarrow> poll_event \<Rightarrow> poller" where
  "poll_step ident nodesData s Tick =
     (if cleared s then s
      else s\<lparr>attempts := Suc (attempts s),
             in_flight := insert (Suc (attempts s)) (in_flight s)\<rparr>)"
| "poll_step ident nodesData s (Settled k outcome) =
     (if k \<notin> in_flight s then s
      else let s1 = s\<lparr>in_flight := in_flight s - {k}\<rparr>
           in case outcome of
                Failed \<Rightarrow> s1\<lparr>cleared := True\<rparr>
              | Response res \<Rightarrow>
                  if tr_status res = js ''complete''
                  then s1\<lparr>cleared := True,
                          shown := updateTracerouteResult ident res nodesData (shown s1)\<rparr>
                  else if tr_status res = js ''error'' \<or> attempts s1 \<ge> maxAttempts
                  then s1\<lparr>cleared := True, shown := show_timeout ident (shown s1)\<rparr>
                  else s1)"

definition run_poller ::
  "jsstring \<Rightarrow> ('v, 'm) node_scheme list \<Rightarrow> poll_event list \<Rightarrow> poller \<Rightarrow> poller" where
  "run_poller ident nodesData events s = foldl (poll_step ident nodesData) s events"

text \<open>
  The schedule in which every fetch settles before the next tick: polls 1 to \<open>n\<close>, the
  \<open>k\<close>-th with outcome \<open>fetchJSON k\<close>.
\<close>

definition prompt_polls :: "(nat \<Rightarrow> tr fetched) \<Rightarrow> nat \<Rightarrow> poll_event list" where
  "prompt_polls fetchJSON n = concat (map (\<lambda>k. [Tick, Settled k (fetchJSON k)]) [1..<Suc n])"

text \<open>The handler of the socket event \<open>traceroute_result\<close>.\<close>

definition on_traceroute_result :: "tr \<Rightarrow> ('v, 'm) node_scheme list \<Rightarrow> page \<Rightarrow> page" where
  "on_traceroute_result t nodesData pg = updateTracerouteResult (tr_id t) t nodesData pg"


text \<open>A request and a page to try the functions on.\<close>

definition example_tr :: tr where
  "example_tr =
     \<lparr>tr_id = js ''7'', tr_device = js ''gw1'', tr_destination = js ''!a1'',
      tr_status = js ''pending'', tr_route = Some []\<rparr>"

definition empty_page :: page where
  "empty_page = \<lparr>tr_status_el = Map.empty, tr_hops_el = Map.empty\<rparr>"


section \<open>The MQTT live feed\<close>

text \<open>
  The values a property of a decoded packet can hold: nothing, or a JSON scalar. \<open>'n\<close>
  is the type of the numbers; only whether a number is zero is ever tested.
\<close>

datatype 'n jsval = Undefined | Null | Boolean bool | Number 'n | String jsstring

fun to_boolean :: "'n::zero jsval \<Rightarrow> bool" where
  "to_boolean Undefined = False"
| "to_boolean Null = False"
| "to_boolean (Boolean b) = b"
| "to_boolean (Number n) = (n \<noteq> 0)"
| "to_boolean (String s) = (s \<noteq> [])"

text \<open>The operator \<open>a || b\<close>.\<close>

definition js_or :: "'n::zero jsval \<Rightarrow> 'n jsval \<Rightarrow> 'n jsval" where
  "js_or a b = (if to_boolean a then a else b)"

datatype error = TypeError

text \<open>
  The payload object with the properties \<open>formatMqttPayload\<close> reads (\<open>p_text\<close> is
  \<open>p.text\<close>, \<open>dm_batteryLevel\<close> is \<open>dm.batteryLevel\<close>, and so on). \<open>p_deviceMetrics\<close> and
  \<open>p_environmentMetrics\<close> are \<open>None\<close> when the property is not an object;
  \<open>p_other_keys\<close> counts the keys of the object that are not named here.
\<close>

record 'n device_metrics =
  dm_batteryLevel :: "'n jsval"
  dm_channelUtilization :: "'n jsval"

record 'n environment_metrics =
  em_temperature :: "'n jsval"

record 'n mqtt_payload =
  p_text :: "'n jsval"
  p_latitude :: "'n jsval"
  p_longitude :: "'n jsval"
  p_longName :: "'n jsval"
  p_shortName :: "'n jsval"
  p_hwModelName :: "'n jsval"
  p_deviceMetrics :: "'n device_metrics option"
  p_environmentMetrics :: "'n environment_metrics option"
  p_other_keys :: nat

text \<open>A packet; \<open>portnum\<close> and \<open>payload\<close> are \<open>None\<close> when the property is missing.\<close>

record 'n pkt =
  portnum :: "jsstring option"
  payload :: "'n mqtt_payload option"
  decoded :: bool
  encrypted :: bool

text \<open>
  The built-ins whose output is text that depends on the number format:
  \<open>Number.prototype.toFixed\<close>, the conversion of a number to a string, and
  \<open>JSON.stringify\<close> of the payload. They are parameters.
\<close>

record 'n formats =
  toFixed :: "'n \<Rightarrow> nat \<Rightarrow> jsstring"
  number_text :: "'n \<Rightarrow> jsstring"
  stringify :: "'n mqtt_payload \<Rightarrow> jsstring"

text \<open>A value inside a template literal.\<close>

fun to_string :: "'n formats \<Rightarrow> 'n jsval \<Rightarrow> jsstring" where
  "to_string fmt Undefined = js ''undefined''"
| "to_string fmt Null = js ''null''"
| "to_string fmt (Boolean b) = (if b then js ''true'' else js ''false'')"
| "to_string fmt (Number n) = number_text fmt n"
| "to_string fmt (String s) = s"

text \<open>
  The call \<open>v.toFixed(d)\<close>: only a number has the method; on \<open>undefined\<close> and \<open>null\<close>
  the property access throws, on a boolean or a string the call of \<open>undefined\<close> throws.
\<close>

fun call_toFixed :: "'n formats \<Rightarrow> 'n jsval \<Rightarrow> nat \<Rightarrow> error + jsstring" where
  "call_toFixed fmt (Number n) d = Inr (toFixed fmt n d)"
| "call_toFixed fmt v d = Inl TypeError"

definition empty_payload :: "'n mqtt_payload" where
  "empty_payload =
     \<lparr>p_text = Undefined, p_latitude = Undefined, p_longitude = Undefined,
      p_longName = Undefined, p_shortName = Undefined, p_hwModelName = Undefined,
      p_deviceMetrics = None, p_environmentMetrics = None, p_other_keys = 0\<rparr>"

text \<open>\<open>Object.keys(p).length > 0\<close>.\<close>

definition has_keys :: "'n mqtt_payload \<Rightarrow> bool" where
  "has_keys p \<longleftrightarrow>
     p_text p \<noteq> Undefined \<or> p_latitude p \<noteq> Undefined \<or> p_longitude p \<noteq> Undefined
     \<or> p_longName p \<noteq> Undefined \<or> p_shortName p \<noteq> Undefined
     \<or> p_hwModelName p \<noteq> Undefined \<or> p_deviceMetrics p \<noteq> None
     \<or> p_environmentMetrics p \<noteq> None \<or> p_other_keys p > 0"

definition formatMqttPayload ::
  "'n::zero formats \<Rightarrow> ('n, 'm) pkt_scheme \<Rightarrow> error + jsstring" where
  \<open>formatMqttPayload fmt pkt =
     (let p = (case payload pkt of Some q \<Rightarrow> q | None \<Rightarrow> empty_payload)
      in if portnum pkt = Some (js ''TEXT_MESSAGE_APP'') \<and> to_boolean (p_text p)
         then Inr ([0x22] @ to_string fmt (p_text p) @ [0x22])
         else if portnum pkt = Some (js ''POSITION_APP'') \<and> to_boolean (p_latitude p)
         then (case call_toFixed fmt (p_latitude p) 4 of
                 Inl e \<Rightarrow> Inl e
               | Inr lat \<Rightarrow>
                   (case call_toFixed fmt (p_longitude p) 4 of
                      Inl e \<Rightarrow> Inl e
                    | Inr lon \<Rightarrow> Inr (lat @ js '', '' @ lon)))
         else if portnum pkt = Some (js ''NODEINFO_APP'') \<and> to_boolean (p_longName p)
         then Inr (to_string fmt (p_longName p) @ js '' (''
                   @ to_string fmt (js_or (p_shortName p) (String (js ''?''))) @ js '') ''
                   @ to_string fmt (js_or (p_hwModelName p) (String [])))
         else if portnum pkt = Some (js ''TELEMETRY_APP'')
         then (let dm = (case p_deviceMetrics p of
                           Some m \<Rightarrow> m
                         | None \<Rightarrow> \<lparr>dm_batteryLevel = Undefined,
                                      dm_channelUtilization = Undefined\<rparr>)
               in if to_boolean (dm_batteryLevel dm)
                  then (case call_toFixed fmt (js_or (dm_channelUtilization dm) (Number 0)) 1 of
                          Inl e \<Rightarrow> Inl e
                        | Inr ch \<Rightarrow>
                            Inr (js ''bat:'' @ to_string fmt (dm_batteryLevel dm) @ js ''% ch:''
                                 @ ch @ js ''%''))
                  else let em = (case p_environmentMetrics p of
                                   Some m \<Rightarrow> m
                                 | None \<Rightarrow> \<lparr>em_temperature = Undefined\<rparr>)
                       in if to_boolean (em_temperature em)
                          then (case call_toFixed fmt (em_temperature em) 1 of
                                  Inl e \<Rightarrow> Inl e
                                | Inr t \<Rightarrow> Inr (js ''temp:'' @ t @ [0xB0] @ js ''C''))
                          else Inr (take 60 (stringify fmt p)))
         else if \<not> decoded pkt
         then Inr (if encrypted pkt then [0xD83D, 0xDD12] @ js '' encrypted'' else [0x2014])
         else if has_keys p then Inr (take 80 (stringify fmt p))
         else Inr [0x2014])\<close>

text \<open>
  The feed container as the list of its row elements, oldest first, each row given by the
  packet it shows. The packet's fields are put into the row's markup unescaped, so the
  parser may create further elements of class \<open>mqtt-feed-row\<close> inside a row;
  \<open>markup_rows p\<close> is their number (0 for a packet whose fields hold no markup).
  \<open>querySelectorAll\<close> counts them too, and its first result is the first row of the
  container. When \<open>formatMqttPayload\<close> throws, the exception leaves \<open>appendMqttPacket\<close>
  before the row is made: the result is the error and the container is as it was.
\<close>

definition appendMqttPacket ::
  "'n::zero formats \<Rightarrow> (('n, 'm) pkt_scheme \<Rightarrow> nat) \<Rightarrow> jsstring \<Rightarrow> ('n, 'm) pkt_scheme
   \<Rightarrow> ('n, 'm) pkt_scheme list \<Rightarrow> error + ('n, 'm) pkt_scheme list" where
  "appendMqttPacket fmt markup_rows filter_value pkt container =
     (if filter_value \<noteq> [] \<and> portnum pkt \<noteq> Some filter_value then Inr container
      else case formatMqttPayload fmt pkt of
             Inl e \<Rightarrow> Inl e
           | Inr payload_text \<Rightarrow>
               (let appended = container @ [pkt];
                    rows = sum_list (map (\<lambda>p. 1 + markup_rows p) appended)
                in Inr (if rows > 500 then tl appended else appended)))"

text \<open>
  The feed after a sequence of calls, each with the filter value it finds; a call that
  throws leaves the feed as it was.
\<close>

definition feed_after ::
  "'n::zero formats \<Rightarrow> (('n, 'm) pkt_scheme \<Rightarrow> nat) \<Rightarrow> (jsstring \<times> ('n, 'm) pkt_scheme) list
   \<Rightarrow> ('n, 'm) pkt_scheme list" where
  "feed_after fmt markup_rows calls =
     foldl (\<lambda>container (filter_value, pkt).
              case appendMqttPacket fmt markup_rows filter_value pkt container of
                Inl e \<Rightarrow> container
              | Inr container' \<Rightarrow> container') [] calls"


section \<open>Lemmas on escaping\<close>

lemma replace_all_append:
  "replace_all c r (xs @ ys) = replace_all c r xs @ replace_all c r ys"
  by (induction xs) simp_all

lemma replace_all_concat_map:
  "replace_all c r (concat (map f s)) = concat (map (\<lambda>x. replace_all c r (f x)) s)"
  by (induction s) (simp_all add: replace_all_append)

lemma replace_all_units:
  "replace_all c r s = concat (map (\<lambda>x. if x = c then r else [x]) s)"
  by (induction s) simp_all

lemma escapeHtml_regex_units: "escapeHtml_regex s = concat (map html_entity s)"
proof -
  have u: "\<And>x. replace_all (cu (CHR 0x22)) (js ''&quot;'')
       (replace_all (cu CHR ''>'') (js ''&gt;'')
         (replace_all (cu CHR ''<'') (js ''&lt;'')
           (if x = cu CHR ''&'' then js ''&amp;'' else [x]))) = html_entity x"
    by (simp add: html_entity_def js_def cu_def)
  show ?thesis
    unfolding escapeHtml_regex_def
    by (subst replace_all_units [of "cu CHR ''&''"]) (simp only: replace_all_concat_map u)
qed

lemma escapeHtml_dom_units: "escapeHtml_dom s = concat (map text_entity s)"
proof -
  have u: "\<And>x. replace_all (cu CHR ''>'') (js ''&gt;'')
         (replace_all (cu CHR ''<'') (js ''&lt;'')
           (replace_all 0xA0 (js ''&nbsp;'')
             (if x = cu CHR ''&'' then js ''&amp;'' else [x]))) = text_entity x"
    by (simp add: text_entity_def js_def cu_def)
  show ?thesis
    unfolding escapeHtml_dom_def escape_text_node_def
    by (subst replace_all_units [of "cu CHR ''&''"]) (simp only: replace_all_concat_map u)
qed

lemma html_entity_no_raw:
  "cu CHR ''<'' \<notin> set (html_entity c)"
  "cu CHR ''>'' \<notin> set (html_entity c)"
  "cu (CHR 0x22) \<notin> set (html_entity c)"
  by (simp_all add: html_entity_def js_def cu_def)

lemma entity_nonempty: "text_entity x \<noteq> []" "html_entity x \<noteq> []"
  by (simp_all add: text_entity_def html_entity_def js_def cu_def)

lemma entity_heads:
  "hd (text_entity x) = hd (html_entity x) \<longleftrightarrow> x \<noteq> cu (CHR 0x22) \<and> x \<noteq> 0xA0"
  by (simp add: text_entity_def html_entity_def js_def cu_def)

lemma entity_same:
  "x \<noteq> cu (CHR 0x22) \<Longrightarrow> x \<noteq> 0xA0 \<Longrightarrow> text_entity x = html_entity x"
  by (simp add: text_entity_def html_entity_def)

lemma units_agree:
  "concat (map text_entity s) = concat (map html_entity s)
   \<longleftrightarrow> cu (CHR 0x22) \<notin> set s \<and> 0xA0 \<notin> set s"
proof (induction s)
  case Nil
  show ?case by simp
next
  case (Cons x s)
  show ?case
  proof (cases "x \<noteq> cu (CHR 0x22) \<and> x \<noteq> 0xA0")
    case True
    then have "text_entity x = html_entity x"
      by (simp add: entity_same)
    with True Cons show ?thesis by auto
  next
    case False
    then have "hd (text_entity x) \<noteq> hd (html_entity x)"
      by (simp add: entity_heads)
    then have "hd (text_entity x @ concat (map text_entity s))
               \<noteq> hd (html_entity x @ concat (map html_entity s))"
      by (simp add: entity_nonempty)
    then have "text_entity x @ concat (map text_entity s)
               \<noteq> html_entity x @ concat (map html_entity s)"
      by metis
    with False show ?thesis by auto
  qed
qed


section \<open>Results on escaping\<close>

text \<open>
  Claim C10. For every input string the regex-based escapeHtml replaces every \<open>&\<close>, \<open><\<close>,
  \<open>>\<close> and double quote by its entity and nothing else: the output is the input with each
  code unit replaced once by its entry in the entity table (the ampersands of the entities
  are not escaped again, since \<open>&\<close> is replaced first), and it holds no raw \<open><\<close>, \<open>>\<close> or
  double quote.
\<close>

theorem escapeHtml_regex_escapes:
  "escapeHtml_regex s = concat (map html_entity s)
   \<and> cu CHR ''<'' \<notin> set (escapeHtml_regex s)
   \<and> cu CHR ''>'' \<notin> set (escapeHtml_regex s)
   \<and> cu (CHR 0x22) \<notin> set (escapeHtml_regex s)"
  by (simp add: escapeHtml_regex_units html_entity_no_raw)


section \<open>Lemmas on loadAll\<close>

lemma collect_nodes_first_wins:
  "collect_nodes dn ns (seen, acc) =
     (seen \<union> node_id ` set ns,
      acc @ first_wins seen (map (\<lambda>n. n\<lparr>seenBy := Some dn\<rparr>) ns))"
  by (induction ns arbitrary: seen acc) auto

lemma first_wins_append:
  "first_wins seen (xs @ ys) = first_wins seen xs @ first_wins (seen \<union> node_id ` set xs) ys"
  by (induction xs arbitrary: seen) (auto simp: insert_absorb)

lemma tagged_ids: "node_id ` set (map (\<lambda>n. n\<lparr>seenBy := Some dn\<rparr>) ns) = node_id ` set ns"
  by (induction ns) auto

lemma collect_devices_first_wins:
  "collect_devices ds (seen, acc) =
     (seen \<union> node_id ` set (observations ds), acc @ first_wins seen (observations ds))"
proof (induction ds arbitrary: seen acc)
  case Nil
  show ?case by (simp add: observations_def)
next
  case (Cons d ds)
  show ?case
  proof (cases "nodes d")
    case None
    then show ?thesis
      using Cons [of seen acc] by (simp add: observations_def)
  next
    case (Some ns)
    have o: "observations (d # ds)
             = map (\<lambda>n. n\<lparr>seenBy := Some (name d)\<rparr>) ns @ observations ds"
      using Some by (simp add: observations_def)
    show ?thesis
      using Some
      by (simp add: collect_nodes_first_wins Cons o first_wins_append tagged_ids
            Un_assoc image_Un del: set_map)
  qed
qed

lemma loadAll_first_wins: "loadAll devices = first_wins {} (observations devices)"
  by (simp add: loadAll_def collect_devices_first_wins)

lemma first_wins_fresh: "n \<in> set (first_wins seen xs) \<Longrightarrow> node_id n \<notin> seen"
  by (induction xs arbitrary: seen) (auto split: if_splits)

lemma first_wins_distinct: "distinct (map node_id (first_wins seen xs))"
proof (induction xs arbitrary: seen)
  case Nil
  show ?case by simp
next
  case (Cons x xs)
  have "node_id x \<notin> node_id ` set (first_wins (insert (node_id x) seen) xs)"
  proof
    assume "node_id x \<in> node_id ` set (first_wins (insert (node_id x) seen) xs)"
    then obtain n where n: "n \<in> set (first_wins (insert (node_id x) seen) xs)"
        "node_id n = node_id x"
      by auto
    from first_wins_fresh [OF n(1)] n(2) show False
      by simp
  qed
  then show ?case
    by (simp add: Cons)
qed

lemma first_wins_filter_seen:
  "i \<in> seen \<Longrightarrow> filter (\<lambda>n. node_id n = i) (first_wins seen xs) = []"
  by (induction xs arbitrary: seen) auto

lemma first_wins_filter:
  "i \<notin> seen \<Longrightarrow>
   filter (\<lambda>n. node_id n = i) (first_wins seen xs) =
     (case find (\<lambda>n. node_id n = i) xs of None \<Rightarrow> [] | Some n \<Rightarrow> [n])"
  by (induction xs arbitrary: seen) (auto simp: first_wins_filter_seen)


section \<open>Results on loadAll\<close>

text \<open>
  Claim C4. For every device list, the ids of the combined node list are pairwise
  different: a node id reported by several devices appears once.
\<close>

theorem loadAll_ids_distinct: "distinct (map node_id (loadAll devices))"
  by (simp add: loadAll_first_wins first_wins_distinct)

text \<open>
  Claim C2, as stated, fails: with two devices reporting the same node, the first
  device's report is kept whole although the second one was heard later and differs.
\<close>

theorem loadAll_keeps_older_observation:
  "loadAll
     [\<lparr>name = js ''gw1'', connected = True,
       nodes = Some [\<lparr>node_id = js ''!a1'', longName = js ''Alpha'', lastHeard = 100,
                      batteryLevel = 50::int, latitude = 0, longitude = 0, seenBy = None\<rparr>]\<rparr>,
      \<lparr>name = js ''gw2'', connected = True,
       nodes = Some [\<lparr>node_id = js ''!a1'', longName = js ''Alpha'', lastHeard = 200,
                      batteryLevel = 80::int, latitude = 0, longitude = 0, seenBy = None\<rparr>]\<rparr>]
   = [\<lparr>node_id = js ''!a1'', longName = js ''Alpha'', lastHeard = 100,
       batteryLevel = 50::int, latitude = 0, longitude = 0, seenBy = Some (js ''gw1'')\<rparr>]"
  by (simp add: loadAll_def)

text \<open>
  Claim C2, amended. For every node id, the combined list holds exactly one record when
  some device reports the id and none otherwise; that record is the first report of the id
  in the order of the device list, taken whole and tagged with the device that made it. No
  field comes from any other report, whatever its timestamp.
\<close>

theorem loadAll_first_observation_wins:
  "filter (\<lambda>n. node_id n = i) (loadAll devices) =
     (case find (\<lambda>n. node_id n = i) (observations devices) of
        None \<Rightarrow> []
      | Some n \<Rightarrow> [n])"
  by (simp add: loadAll_first_wins first_wins_filter)


section \<open>Results on the two definitions of escapeHtml\<close>

text \<open>
  Claim C3, as stated, fails: on the string that is one double quote the earlier
  definition returns the quote and the later one returns the entity.
\<close>

theorem escapeHtml_copies_differ:
  "escapeHtml_dom [cu (CHR 0x22)] = [cu (CHR 0x22)]
   \<and> escapeHtml_regex [cu (CHR 0x22)] = js ''&quot;''
   \<and> escapeHtml_dom [cu (CHR 0x22)] \<noteq> escapeHtml_regex [cu (CHR 0x22)]"
  by (simp add: escapeHtml_dom_def escape_text_node_def escapeHtml_regex_def js_def cu_def)

text \<open>
  Claim C3, amended. The two definitions of escapeHtml return the same string exactly
  on the inputs that hold neither a double quote nor a no-break space (U+00A0).
\<close>

theorem escapeHtml_copies_agree_iff:
  "escapeHtml_dom s = escapeHtml_regex s \<longleftrightarrow> cu (CHR 0x22) \<notin> set s \<and> 0xA0 \<notin> set s"
  by (simp add: escapeHtml_dom_units escapeHtml_regex_units units_agree)


section \<open>Results on updateConnectionStatus\<close>

lemma number_to_string_nonempty: "0 < length (number_to_string n)"
  by (subst number_to_string.simps) simp

lemma count_text_differs:
  "number_to_string n @ js '' devices connected'' \<noteq> js ''Partial connection''"
  "number_to_string n @ js '' devices connected'' \<noteq> js ''Disconnected''"
proof -
  have "length (number_to_string n @ js '' devices connected'') > 18"
    using number_to_string_nonempty [of n] by (simp add: js_def)
  moreover have "length (js ''Partial connection'') = 18" "length (js ''Disconnected'') = 12"
    by (simp_all add: js_def)
  ultimately show
    "number_to_string n @ js '' devices connected'' \<noteq> js ''Partial connection''"
    "number_to_string n @ js '' devices connected'' \<noteq> js ''Disconnected''"
    by force+
qed

text \<open>
  Claim C9. For the empty device list the badge reads Disconnected; and the badge reads
  "N devices connected" if and only if the list is non-empty and every device is connected.
\<close>

theorem updateConnectionStatus_empty_disconnected:
  "updateConnectionStatus [] =
     \<lparr>textContent = js ''Disconnected'', className = js ''badge badge-offline''\<rparr>
   \<and> (textContent (updateConnectionStatus devices)
        = number_to_string (length devices) @ js '' devices connected''
      \<longleftrightarrow> devices \<noteq> [] \<and> list_all connected devices)"
  by (auto simp add: updateConnectionStatus_def Let_def count_text_differs
        count_text_differs [symmetric])


section \<open>Results on the position_update event\<close>

lemma find_index_Some:
  "find_index P xs = Some i \<Longrightarrow> i < length xs \<and> P (xs ! i) \<and> (\<forall>j<i. \<not> P (xs ! j))"
proof (induction xs arbitrary: i)
  case Nil
  then show ?case by simp
next
  case (Cons x xs)
  show ?case
  proof (cases "P x")
    case True
    with Cons.prems show ?thesis by simp
  next
    case False
    with Cons.prems obtain k where k: "find_index P xs = Some k" "i = Suc k"
      by auto
    from Cons.IH [OF k(1)] False k(2) show ?thesis
      by (auto simp: less_Suc_eq_0_disj)
  qed
qed

lemma find_index_None: "find_index P xs = None \<longleftrightarrow> (\<forall>x\<in>set xs. \<not> P x)"
  by (induction xs) auto

text \<open>
  Claim C8. The handler leaves the length of the node list unchanged; the node at each
  position is unchanged, except that the first node whose id is the event's from-id gets
  the event's latitude and longitude (its other fields unchanged) when the event carries a
  position; and with no position or no node of that id the list is unchanged.
\<close>

theorem position_update_frame:
  "length (on_position_update data nodesData) = length nodesData
   \<and> (\<forall>i < length nodesData.
        on_position_update data nodesData ! i =
          (case pu_position data of
             Some p \<Rightarrow>
               if find_index (\<lambda>n. node_id n = pu_from data) nodesData = Some i
               then (nodesData ! i)\<lparr>latitude := pos_latitude p, longitude := pos_longitude p\<rparr>
               else nodesData ! i
           | None \<Rightarrow> nodesData ! i))
   \<and> (pu_position data = None \<or> pu_from data \<notin> node_id ` set nodesData
        \<longrightarrow> on_position_update data nodesData = nodesData)"
proof (cases "find_index (\<lambda>n. node_id n = pu_from data) nodesData")
  case None
  then have "pu_from data \<notin> node_id ` set nodesData"
    by (auto simp: find_index_None)
  with None show ?thesis
    by (auto simp: on_position_update_def split: option.splits)
next
  case (Some k)
  from find_index_Some [OF Some]
  have k: "k < length nodesData" and "node_id (nodesData ! k) = pu_from data"
    by simp_all
  then have "pu_from data \<in> node_id ` set nodesData"
    by (metis imageI nth_mem)
  with Some k show ?thesis
    by (auto simp: on_position_update_def nth_list_update split: option.splits)
qed

theorem position_update_frame_witness:
  "on_position_update
     \<lparr>pu_from = js ''!b2'', pu_position = Some \<lparr>pos_latitude = 63::int, pos_longitude = 19\<rparr>\<rparr>
     [\<lparr>node_id = js ''!a1'', longName = js ''Alpha'', lastHeard = 100, batteryLevel = 50,
       latitude = 0, longitude = 0, seenBy = None\<rparr>,
      \<lparr>node_id = js ''!b2'', longName = js ''Beta'', lastHeard = 100, batteryLevel = 70,
       latitude = 0, longitude = 0, seenBy = None\<rparr>] ! 1
   = \<lparr>node_id = js ''!b2'', longName = js ''Beta'', lastHeard = 100, batteryLevel = 70,
      latitude = 63, longitude = 19, seenBy = None\<rparr>
   \<and> on_position_update
       \<lparr>pu_from = js ''!c3'', pu_position = Some \<lparr>pos_latitude = 63::int, pos_longitude = 19\<rparr>\<rparr>
       [\<lparr>node_id = js ''!a1'', longName = js ''Alpha'', lastHeard = 100, batteryLevel = 50,
         latitude = 0, longitude = 0, seenBy = None\<rparr>]
     = [\<lparr>node_id = js ''!a1'', longName = js ''Alpha'', lastHeard = 100, batteryLevel = 50,
         latitude = 0, longitude = 0, seenBy = None\<rparr>]"
  using position_update_frame
    [of "\<lparr>pu_from = js ''!b2'',
          pu_position = Some \<lparr>pos_latitude = 63::int, pos_longitude = 19\<rparr>\<rparr>"
        "[\<lparr>node_id = js ''!a1'', longName = js ''Alpha'', lastHeard = 100, batteryLevel = 50,
           latitude = 0, longitude = 0, seenBy = None\<rparr>,
          \<lparr>node_id = js ''!b2'', longName = js ''Beta'', lastHeard = 100, batteryLevel = 70,
           latitude = 0, longitude = 0, seenBy = None\<rparr>]"]
    position_update_frame
    [of "\<lparr>pu_from = js ''!c3'',
          pu_position = Some \<lparr>pos_latitude = 63::int, pos_longitude = 19\<rparr>\<rparr>"
        "[\<lparr>node_id = js ''!a1'', longName = js ''Alpha'', lastHeard = 100, batteryLevel = 50,
           latitude = 0, longitude = 0, seenBy = None\<rparr>]"]
  by (simp add: js_def cu_def)


section \<open>Results on the topology links\<close>

lemma build_nodeMap_dom: "dom (build_nodeMap ns i m) = dom m \<union> topo_id ` set ns"
  by (induction ns arbitrary: i m) auto

lemma nodeMap_get_truthy:
  "key \<notin> set object_prototype_members \<Longrightarrow> truthy (nodeMap_get m key) \<longleftrightarrow> key \<in> dom m"
  by (auto simp: nodeMap_get_def split: option.splits)

lemma build_links_filter:
  "map (\<lambda>l. (snr l, rssi l)) (build_links m es) =
   map (\<lambda>e. (edge_snr e, edge_rssi e))
     (filter (\<lambda>e. truthy (nodeMap_get m (edge_from e)) \<and> truthy (nodeMap_get m (edge_to e))) es)"
  by (induction es) (auto simp: Let_def)

text \<open>
  Where no id of the snapshot is the name of a member of \<open>Object.prototype\<close>, the links
  are those of the edges with both endpoints among the nodes, in the order of the edges.
\<close>

lemma links_of_plain_ids:
  assumes "topo_nodes data \<noteq> []"
    and "js ''__proto__'' \<notin> topo_id ` set (topo_nodes data)"
    and "\<forall>e \<in> set (topo_edges data).
           edge_from e \<notin> set object_prototype_members
           \<and> edge_to e \<notin> set object_prototype_members"
  shows "\<exists>links. renderTopologyGraph data = Graph links
           \<and> map (\<lambda>l. (snr l, rssi l)) links =
               map (\<lambda>e. (edge_snr e, edge_rssi e))
                 (filter (\<lambda>e. edge_from e \<in> topo_id ` set (topo_nodes data)
                              \<and> edge_to e \<in> topo_id ` set (topo_nodes data))
                    (topo_edges data))"
proof -
  let ?m = "build_nodeMap (topo_nodes data) 0 Map.empty"
  have r: "renderTopologyGraph data = Graph (build_links ?m (topo_edges data))"
    using assms(1,2) by (simp add: renderTopologyGraph_def Let_def)
  have "filter (\<lambda>e. truthy (nodeMap_get ?m (edge_from e)) \<and> truthy (nodeMap_get ?m (edge_to e)))
          (topo_edges data)
        = filter (\<lambda>e. edge_from e \<in> topo_id ` set (topo_nodes data)
                       \<and> edge_to e \<in> topo_id ` set (topo_nodes data)) (topo_edges data)"
    using assms(3) by (intro filter_cong) (simp_all add: nodeMap_get_truthy build_nodeMap_dom)
  with r show ?thesis
    by (simp add: build_links_filter)
qed

text \<open>
  Claim C7. The code does not meet it: for the snapshot with the one node \<open>!a1\<close> and the
  one edge from \<open>constructor\<close> to \<open>!a1\<close>, no node has the id \<open>constructor\<close>, yet the
  edge is not filtered out: \<open>nodeMap["constructor"]\<close> is the inherited constructor
  function, which is truthy, and the link is pushed with an undefined source index.
\<close>

theorem renderTopologyGraph_inherited_key:
  "renderTopologyGraph
     \<lparr>topo_nodes = [\<lparr>topo_id = js ''!a1''\<rparr>],
      topo_edges = [\<lparr>edge_from = js ''constructor'', edge_to = js ''!a1'',
                     edge_snr = 5::int, edge_rssi = -80::int\<rparr>]\<rparr>
   = Graph [\<lparr>source = None, target = Some 0, snr = 5, rssi = -80\<rparr>]
   \<and> js ''constructor'' \<notin> topo_id ` set [\<lparr>topo_id = js ''!a1''\<rparr>]"
  by (simp add: renderTopologyGraph_def nodeMap_get_def object_prototype_members_def
        js_def cu_def)


section \<open>Results on the MQTT live feed\<close>

lemma rows_ge_length: "length c \<le> sum_list (map (\<lambda>p. 1 + mr p) c)"
  by (induction c) auto

lemma rows_plain:
  "(\<forall>q \<in> set c. mr q = 0) \<Longrightarrow> sum_list (map (\<lambda>p. 1 + mr p) c) = length c"
  by (induction c) auto

lemma format_cases:
  "formatMqttPayload fmt p = Inl TypeError \<or> (\<exists>s. formatMqttPayload fmt p = Inr s)"
proof (cases "formatMqttPayload fmt p")
  case (Inl e)
  then show ?thesis by (cases e) simp
next
  case (Inr s)
  then show ?thesis by simp
qed

lemma append_filtered:
  "\<not> (f = [] \<or> portnum p = Some f) \<Longrightarrow> appendMqttPacket fmt mr f p c = Inr c"
  by (simp add: appendMqttPacket_def)

lemma append_throws:
  "f = [] \<or> portnum p = Some f \<Longrightarrow> formatMqttPayload fmt p = Inl TypeError
   \<Longrightarrow> appendMqttPacket fmt mr f p c = Inl TypeError"
  by (auto simp: appendMqttPacket_def)

lemma append_returns:
  assumes "f = [] \<or> portnum p = Some f" and "formatMqttPayload fmt p \<noteq> Inl TypeError"
  shows "appendMqttPacket fmt mr f p c =
           Inr (if sum_list (map (\<lambda>q. 1 + mr q) (c @ [p])) > 500
                then tl (c @ [p]) else c @ [p])"
proof -
  from assms(2) format_cases [of fmt p] obtain s where "formatMqttPayload fmt p = Inr s"
    by blast
  with assms(1) show ?thesis
    by (auto simp: appendMqttPacket_def Let_def)
qed

lemma append_cases:
  "appendMqttPacket fmt mr f p c = Inl TypeError
   \<or> appendMqttPacket fmt mr f p c = Inr c
   \<or> appendMqttPacket fmt mr f p c = Inr (c @ [p])
   \<or> appendMqttPacket fmt mr f p c = Inr (tl (c @ [p]))"
proof (cases "f = [] \<or> portnum p = Some f")
  case False
  then show ?thesis by (simp add: append_filtered)
next
  case True
  show ?thesis
  proof (cases "formatMqttPayload fmt p = Inl TypeError")
    case True
    with \<open>f = [] \<or> portnum p = Some f\<close> show ?thesis
      by (simp add: append_throws)
  next
    case False
    with \<open>f = [] \<or> portnum p = Some f\<close> show ?thesis
      by (simp add: append_returns)
  qed
qed

lemma append_bound:
  assumes "length c \<le> 500" and "appendMqttPacket fmt mr f p c = Inr c'"
  shows "length c' \<le> 500"
proof (cases "f = [] \<or> portnum p = Some f")
  case False
  with assms show ?thesis by (simp add: append_filtered)
next
  case True
  from assms(2) True have r: "formatMqttPayload fmt p \<noteq> Inl TypeError"
    by (auto simp: append_throws)
  have "length (c @ [p]) \<le> sum_list (map (\<lambda>q. 1 + mr q) (c @ [p]))"
    by (rule rows_ge_length)
  with assms True r show ?thesis
    by (auto simp: append_returns split: if_splits)
qed

lemma feed_after_snoc:
  "feed_after fmt mr (calls @ [(f, p)]) =
     (case appendMqttPacket fmt mr f p (feed_after fmt mr calls) of
        Inl e \<Rightarrow> feed_after fmt mr calls
      | Inr c' \<Rightarrow> c')"
  by (simp add: feed_after_def cong: sum.case_cong)

lemma feed_after_bound: "length (feed_after fmt mr calls) \<le> 500"
proof (induction calls rule: rev_induct)
  case Nil
  show ?case by (simp add: feed_after_def)
next
  case (snoc x xs)
  obtain f p where x: "x = (f, p)" by (cases x)
  show ?case
  proof (cases "appendMqttPacket fmt mr f p (feed_after fmt mr xs)")
    case (Inl e)
    with snoc x show ?thesis by (simp add: feed_after_snoc)
  next
    case (Inr c')
    with snoc x append_bound [OF snoc Inr] show ?thesis
      by (simp add: feed_after_snoc)
  qed
qed

lemma append_evicts_oldest:
  assumes "f = [] \<or> portnum p = Some f" and "formatMqttPayload fmt p \<noteq> Inl TypeError"
    and "length c \<ge> 500"
  shows "appendMqttPacket fmt mr f p c = Inr (tl (c @ [p]))"
proof -
  have "length (c @ [p]) \<le> sum_list (map (\<lambda>q. 1 + mr q) (c @ [p]))"
    by (rule rows_ge_length)
  with assms(3) have "sum_list (map (\<lambda>q. 1 + mr q) (c @ [p])) > 500"
    by simp
  with assms(1,2) show ?thesis
    by (simp add: append_returns)
qed

lemma append_keeps_all:
  assumes "f = [] \<or> portnum p = Some f" and "formatMqttPayload fmt p \<noteq> Inl TypeError"
    and "\<forall>q \<in> set (c @ [p]). mr q = 0" and "length c < 500"
  shows "appendMqttPacket fmt mr f p c = Inr (c @ [p])"
proof -
  have "sum_list (map (\<lambda>q. 1 + mr q) (c @ [p])) = length (c @ [p])"
    using assms(3) by (rule rows_plain)
  with assms(4) have "\<not> sum_list (map (\<lambda>q. 1 + mr q) (c @ [p])) > 500"
    by simp
  with assms(1,2) show ?thesis
    by (simp add: append_returns)
qed

text \<open>
  Claim C5. Starting from the empty feed, after every sequence of calls of
  appendMqttPacket the feed holds at most 500 rows, and a call that returns keeps that
  bound. A call throws and leaves the feed as it is, or returns with the feed as it is
  (packet filtered out), or with the row appended, or with the row appended and the first,
  oldest, row removed; never any other row. A packet that passes the filter and makes
  formatMqttPayload throw gives the first case, a packet that does not pass the filter the
  second. When a packet passes the filter and is formatted and the feed holds 500 rows, so
  that the bound is exceeded, it is the first row that goes; when moreover the rows hold no
  markup and the feed has fewer than 500 rows, none goes.
\<close>

theorem mqtt_feed_bounded:
  "length (feed_after fmt markup_rows calls) \<le> 500
   \<and> (\<forall>c'. length c \<le> 500 \<and> appendMqttPacket fmt markup_rows f p c = Inr c'
          \<longrightarrow> length c' \<le> 500)
   \<and> (appendMqttPacket fmt markup_rows f p c = Inl TypeError
      \<or> appendMqttPacket fmt markup_rows f p c = Inr c
      \<or> appendMqttPacket fmt markup_rows f p c = Inr (c @ [p])
      \<or> appendMqttPacket fmt markup_rows f p c = Inr (tl (c @ [p])))
   \<and> ((f = [] \<or> portnum p = Some f) \<and> formatMqttPayload fmt p = Inl TypeError
      \<longrightarrow> appendMqttPacket fmt markup_rows f p c = Inl TypeError)
   \<and> (f \<noteq> [] \<and> portnum p \<noteq> Some f
      \<longrightarrow> appendMqttPacket fmt markup_rows f p c = Inr c)
   \<and> ((f = [] \<or> portnum p = Some f) \<and> formatMqttPayload fmt p \<noteq> Inl TypeError
        \<and> length c \<ge> 500
      \<longrightarrow> appendMqttPacket fmt markup_rows f p c = Inr (tl (c @ [p])))
   \<and> ((f = [] \<or> portnum p = Some f) \<and> formatMqttPayload fmt p \<noteq> Inl TypeError
        \<and> (\<forall>q \<in> set (c @ [p]). markup_rows q = 0) \<and> length c < 500
      \<longrightarrow> appendMqttPacket fmt markup_rows f p c = Inr (c @ [p]))"
proof -
  have a: "\<forall>c'. length c \<le> 500 \<and> appendMqttPacket fmt markup_rows f p c = Inr c'
             \<longrightarrow> length c' \<le> 500"
    using append_bound [of c fmt markup_rows f p] by blast
  have b: "f \<noteq> [] \<and> portnum p \<noteq> Some f \<longrightarrow> appendMqttPacket fmt markup_rows f p c = Inr c"
    using append_filtered [of f p fmt markup_rows c] by blast
  from a b feed_after_bound [of fmt markup_rows calls] append_cases [of fmt markup_rows f p c]
    append_throws [of f p fmt markup_rows c] append_evicts_oldest [of f p fmt c markup_rows]
    append_keeps_all [of f p fmt c markup_rows]
  show ?thesis
    by blast
qed

theorem mqtt_feed_bounded_witness:
  "formatMqttPayload
     \<lparr>toFixed = \<lambda>n d. js ''0.0'', number_text = \<lambda>n. js ''0'', stringify = \<lambda>q. js ''{}''\<rparr>
     \<lparr>portnum = Some (js ''POSITION_APP''),
      payload = Some (empty_payload\<lparr>p_latitude := Number (63::int)\<rparr>),
      decoded = True, encrypted = False\<rparr>
   = Inl TypeError
   \<and> appendMqttPacket
       \<lparr>toFixed = \<lambda>n d. js ''0.0'', number_text = \<lambda>n. js ''0'', stringify = \<lambda>q. js ''{}''\<rparr>
       (\<lambda>q. 0) []
       \<lparr>portnum = Some (js ''POSITION_APP''),
        payload = Some (empty_payload\<lparr>p_latitude := Number (63::int)\<rparr>),
        decoded = True, encrypted = False\<rparr>
       [\<lparr>portnum = None, payload = None, decoded = False, encrypted = True\<rparr>]
     = Inl TypeError
   \<and> appendMqttPacket
       \<lparr>toFixed = \<lambda>n d. js ''0.0'', number_text = \<lambda>n. js ''0'', stringify = \<lambda>q. js ''{}''\<rparr>
       (\<lambda>q. 0) []
       \<lparr>portnum = Some (js ''TEXT_MESSAGE_APP''),
        payload = Some (empty_payload\<lparr>p_text := String (js ''hi'')\<rparr>),
        decoded = True, encrypted = False\<rparr>
       (replicate 500 \<lparr>portnum = None, payload = None, decoded = False, encrypted = True\<rparr>)
     = Inr (replicate 499
              \<lparr>portnum = None, payload = None :: int mqtt_payload option,
               decoded = False, encrypted = True\<rparr>
            @ [\<lparr>portnum = Some (js ''TEXT_MESSAGE_APP''),
                payload = Some (empty_payload\<lparr>p_text := String (js ''hi'')\<rparr>),
                decoded = True, encrypted = False\<rparr>])
   \<and> appendMqttPacket
       \<lparr>toFixed = \<lambda>n d. js ''0.0'', number_text = \<lambda>n. js ''0'', stringify = \<lambda>q. js ''{}''\<rparr>
       (\<lambda>q. 0) (js ''TEXT_MESSAGE_APP'')
       \<lparr>portnum = Some (js ''TEXT_MESSAGE_APP''),
        payload = Some (empty_payload\<lparr>p_text := String (js ''hi'')\<rparr>),
        decoded = True, encrypted = False\<rparr>
       [\<lparr>portnum = None, payload = None :: int mqtt_payload option,
         decoded = False, encrypted = True\<rparr>]
     = Inr [\<lparr>portnum = None, payload = None, decoded = False, encrypted = True\<rparr>,
            \<lparr>portnum = Some (js ''TEXT_MESSAGE_APP''),
             payload = Some (empty_payload\<lparr>p_text := String (js ''hi'')\<rparr>),
             decoded = True, encrypted = False\<rparr>]"
proof -
  let ?fmt = "\<lparr>toFixed = \<lambda>(n::int) (d::nat). js ''0.0'', number_text = \<lambda>n. js ''0'',
               stringify = \<lambda>q. js ''{}''\<rparr>"
  let ?pos = "\<lparr>portnum = Some (js ''POSITION_APP''),
               payload = Some (empty_payload\<lparr>p_latitude := Number (63::int)\<rparr>),
               decoded = True, encrypted = False\<rparr>"
  let ?txt = "\<lparr>portnum = Some (js ''TEXT_MESSAGE_APP''),
               payload = Some (empty_payload\<lparr>p_text := String (js ''hi'')\<rparr>),
               decoded = True, encrypted = False\<rparr>"
  let ?enc = "\<lparr>portnum = None, payload = None :: int mqtt_payload option,
               decoded = False, encrypted = True\<rparr>"
  have t: "formatMqttPayload ?fmt ?pos = Inl TypeError"
    by (simp add: formatMqttPayload_def empty_payload_def js_def cu_def)
  have r: "formatMqttPayload ?fmt ?txt \<noteq> Inl TypeError"
    by (simp add: formatMqttPayload_def empty_payload_def js_def cu_def)
  have l: "tl (replicate 500 ?enc @ [?txt]) = replicate 499 ?enc @ [?txt]"
    by simp
  show ?thesis
    using t r mqtt_feed_bounded [of ?fmt "\<lambda>q. 0" "[]" "[?enc]" "[]" ?pos]
      mqtt_feed_bounded [of ?fmt "\<lambda>q. 0" "[]" "replicate 500 ?enc" "[]" ?txt]
      mqtt_feed_bounded [of ?fmt "\<lambda>q. 0" "[]" "[?enc]" "js ''TEXT_MESSAGE_APP''" ?txt]
    by (simp add: l)
qed


section \<open>Results on the traceroute poller and the traceroute_result event\<close>

lemma show_timeout_status:
  "tr_status_el pg ident \<noteq> None
   \<Longrightarrow> tr_status_el (show_timeout ident pg) ident = Some timeout_badge"
  by (auto simp: show_timeout_def timeout_badge_def Let_def split: option.splits)

lemma update_status:
  "tr_status_el pg ident \<noteq> None
   \<Longrightarrow> tr_status_el (updateTracerouteResult ident t nd pg) ident = Some complete_badge"
  by (auto simp: updateTracerouteResult_def complete_badge_def Let_def split: option.splits)

lemma update_other:
  "other \<noteq> ident
   \<Longrightarrow> tr_status_el (updateTracerouteResult ident t nd pg) other = tr_status_el pg other"
  by (auto simp: updateTracerouteResult_def Let_def split: option.splits)

lemma added_status: "tr_status_el (addTracerouteResult t pg) (tr_id t) = Some pending_badge"
  by (simp add: addTracerouteResult_def)

lemma badges_differ:
  "timeout_badge \<noteq> complete_badge" "pending_badge \<noteq> timeout_badge"
  by (simp_all add: timeout_badge_def complete_badge_def pending_badge_def js_def cu_def)

lemma run_poller_append:
  "run_poller ident nd (es @ es') s = run_poller ident nd es' (run_poller ident nd es s)"
  by (simp add: run_poller_def)

lemma prompt_polls_Suc:
  "prompt_polls f (Suc n) = prompt_polls f n @ [Tick, Settled (Suc n) (f (Suc n))]"
  by (simp add: prompt_polls_def)

text \<open>
  While the interval is not cleared and no fetch settles, every tick is a poll: the
  counter passes any bound.
\<close>

lemma unanswered_ticks:
  "\<not> cleared s \<Longrightarrow>
   run_poller ident nd (replicate n Tick) s =
     s\<lparr>attempts := attempts s + n,
       in_flight := in_flight s \<union> {attempts s + 1 ..< attempts s + n + 1}\<rparr>"
proof (induction n)
  case 0
  then show ?case by (simp add: run_poller_def)
next
  case (Suc n)
  have "replicate (Suc n) Tick = replicate n Tick @ [Tick]"
    by (simp add: replicate_append_same)
  then have "run_poller ident nd (replicate (Suc n) Tick) s =
      poll_step ident nd (run_poller ident nd (replicate n Tick) s) Tick"
    by (simp add: run_poller_def)
  with Suc show ?case
    by (auto simp: atLeastLessThanSuc)
qed

text \<open>
  With fetches that settle before the next tick, succeed, and report a status that is
  neither complete nor error: after fewer than 30 polls the poller is still polling and the
  page is as it was; the 30th poll clears the interval and displays the timeout.
\<close>

lemma prompt_polls_pending:
  assumes "\<forall>k. 1 \<le> k \<and> k \<le> n \<longrightarrow>
             (\<exists>res. f k = Response res \<and> tr_status res \<noteq> js ''complete''
                    \<and> tr_status res \<noteq> js ''error'')"
    and "n < maxAttempts"
  shows "run_poller ident nd (prompt_polls f n) (pollTraceroute pg) =
           \<lparr>attempts = n, cleared = False, in_flight = {}, shown = pg\<rparr>"
  using assms
proof (induction n)
  case 0
  show ?case by (simp add: prompt_polls_def run_poller_def pollTraceroute_def)
next
  case (Suc n)
  have "1 \<le> Suc n \<and> Suc n \<le> Suc n"
    by simp
  with Suc.prems(1) obtain res where res: "f (Suc n) = Response res"
      "tr_status res \<noteq> js ''complete''" "tr_status res \<noteq> js ''error''"
    by blast
  from Suc have ih: "run_poller ident nd (prompt_polls f n) (pollTraceroute pg) =
           \<lparr>attempts = n, cleared = False, in_flight = {}, shown = pg\<rparr>"
    by simp
  show ?case
    using res Suc.prems(2)
    by (simp add: prompt_polls_Suc run_poller_append ih) (simp add: run_poller_def)
qed

lemma prompt_polls_timeout:
  assumes "\<forall>k. 1 \<le> k \<and> k \<le> maxAttempts \<longrightarrow>
             (\<exists>res. f k = Response res \<and> tr_status res \<noteq> js ''complete''
                    \<and> tr_status res \<noteq> js ''error'')"
  shows "run_poller ident nd (prompt_polls f maxAttempts) (pollTraceroute pg) =
           \<lparr>attempts = maxAttempts, cleared = True, in_flight = {},
            shown = show_timeout ident pg\<rparr>"
proof -
  obtain n where n: "maxAttempts = Suc n"
    by (simp add: maxAttempts_def)
  have "1 \<le> Suc n \<and> Suc n \<le> maxAttempts"
    by (simp add: n)
  with assms obtain res where res: "f (Suc n) = Response res"
      "tr_status res \<noteq> js ''complete''"
    by blast
  have "run_poller ident nd (prompt_polls f n) (pollTraceroute pg) =
           \<lparr>attempts = n, cleared = False, in_flight = {}, shown = pg\<rparr>"
    using assms by (intro prompt_polls_pending) (simp_all add: n)
  then show ?thesis
    using res unfolding n
    by (simp add: prompt_polls_Suc run_poller_append) (simp add: run_poller_def n [symmetric])
qed

text \<open>
  Claim C6. The code does not meet it. The request is started and no poll ever returns
  the status complete. When the first fetch fails, the poller clears the interval and
  leaves the badge at Pending: the request is never reported as timed out. When no fetch
  settles, the interval goes on firing: after 31 ticks 31 polls have been made and the
  interval is not cleared.
\<close>

theorem pollTraceroute_failed_fetch_not_reported:
  "run_poller (js ''7'') ([] :: int node list) [Tick, Settled 1 Failed]
     (pollTraceroute (addTracerouteResult example_tr empty_page))
   = \<lparr>attempts = 1, cleared = True, in_flight = {},
      shown = addTracerouteResult example_tr empty_page\<rparr>
   \<and> tr_status_el (addTracerouteResult example_tr empty_page) (js ''7'') = Some pending_badge
   \<and> pending_badge \<noteq> timeout_badge
   \<and> attempts (run_poller (js ''7'') ([] :: int node list) (replicate 31 Tick)
                  (pollTraceroute (addTracerouteResult example_tr empty_page))) = 31
   \<and> \<not> cleared (run_poller (js ''7'') ([] :: int node list) (replicate 31 Tick)
                    (pollTraceroute (addTracerouteResult example_tr empty_page)))"
proof -
  have u: "\<not> cleared (pollTraceroute (addTracerouteResult example_tr empty_page))"
    by (simp add: pollTraceroute_def)
  have a: "run_poller (js ''7'') ([] :: int node list) [Tick, Settled 1 Failed]
     (pollTraceroute (addTracerouteResult example_tr empty_page))
   = \<lparr>attempts = 1, cleared = True, in_flight = {},
      shown = addTracerouteResult example_tr empty_page\<rparr>"
    by (simp add: run_poller_def pollTraceroute_def)
  have b: "tr_status_el (addTracerouteResult example_tr empty_page) (js ''7'')
           = Some pending_badge"
    by (simp add: addTracerouteResult_def example_tr_def)
  show ?thesis
    using a b badges_differ(2)
    by (simp add: unanswered_ticks [OF u]) (simp add: pollTraceroute_def)
qed

text \<open>
  Claim C1, as stated, fails: the request is started, thirty polls, each answered before
  the next, find it pending and the poller displays Timeout; a traceroute_result event for
  the same id then changes the badge to Complete.
\<close>

theorem late_result_overwrites_timeout:
  "tr_status_el
     (shown (run_poller (js ''7'') ([] :: int node list)
               (prompt_polls (\<lambda>k. Response example_tr) 30)
               (pollTraceroute (addTracerouteResult example_tr empty_page)))) (js ''7'')
   = Some timeout_badge
   \<and> tr_status_el
       (on_traceroute_result
          (example_tr\<lparr>tr_status := js ''complete'', tr_route := Some [js ''!b2'']\<rparr>)
          ([] :: int node list)
          (shown (run_poller (js ''7'') ([] :: int node list)
                    (prompt_polls (\<lambda>k. Response example_tr) 30)
                    (pollTraceroute (addTracerouteResult example_tr empty_page))))) (js ''7'')
     = Some complete_badge
   \<and> timeout_badge \<noteq> complete_badge"
proof -
  have s: "tr_status example_tr \<noteq> js ''complete''" "tr_status example_tr \<noteq> js ''error''"
    by (simp_all add: example_tr_def js_def cu_def)
  have i: "tr_id example_tr = js ''7''"
    by (simp add: example_tr_def)
  have e: "tr_status_el (addTracerouteResult example_tr empty_page) (js ''7'') \<noteq> None"
    using added_status [of example_tr empty_page] by (simp add: i)
  have "run_poller (js ''7'') ([] :: int node list)
          (prompt_polls (\<lambda>k. Response example_tr) maxAttempts)
          (pollTraceroute (addTracerouteResult example_tr empty_page))
        = \<lparr>attempts = maxAttempts, cleared = True, in_flight = {},
           shown = show_timeout (js ''7'') (addTracerouteResult example_tr empty_page)\<rparr>"
    using s by (intro prompt_polls_timeout) simp
  then have p: "shown (run_poller (js ''7'') ([] :: int node list)
                   (prompt_polls (\<lambda>k. Response example_tr) 30)
                   (pollTraceroute (addTracerouteResult example_tr empty_page)))
           = show_timeout (js ''7'') (addTracerouteResult example_tr empty_page)"
    by (simp add: maxAttempts_def)
  have t: "tr_status_el (show_timeout (js ''7'') (addTracerouteResult example_tr empty_page))
             (js ''7'') = Some timeout_badge"
    using e by (rule show_timeout_status)
  then have n: "tr_status_el (show_timeout (js ''7'') (addTracerouteResult example_tr empty_page))
             (js ''7'') \<noteq> None"
    by simp
  show ?thesis
    unfolding p on_traceroute_result_def
    using t update_status [OF n] by (simp add: i badges_differ)
qed

text \<open>
  Claim C1, amended. Once the badge of a request reads Timeout, it still reads Timeout
  after a traceroute_result event for any other request id; a traceroute_result event for
  the request's own id is applied, not ignored: the badge then reads Complete.
\<close>

theorem traceroute_result_after_timeout:
  "tr_status_el pg ident = Some timeout_badge \<Longrightarrow>
     (tr_id t = ident
        \<longrightarrow> tr_status_el (on_traceroute_result t nodesData pg) ident = Some complete_badge)
   \<and> (tr_id t \<noteq> ident
        \<longrightarrow> tr_status_el (on_traceroute_result t nodesData pg) ident = Some timeout_badge)"
  using update_status [of pg ident t nodesData] update_other [of ident "tr_id t" t nodesData pg]
  by (auto simp: on_traceroute_result_def)

theorem traceroute_result_after_timeout_witness:
  "tr_status_el (show_timeout (js ''7'') (addTracerouteResult example_tr empty_page)) (js ''7'')
   = Some timeout_badge
   \<and> tr_status_el
       (on_traceroute_result (example_tr\<lparr>tr_status := js ''complete''\<rparr>) ([] :: int node list)
          (show_timeout (js ''7'') (addTracerouteResult example_tr empty_page))) (js ''7'')
     = Some complete_badge
   \<and> tr_status_el
       (on_traceroute_result (example_tr\<lparr>tr_id := js ''8''\<rparr>) ([] :: int node list)
          (show_timeout (js ''7'') (addTracerouteResult example_tr empty_page))) (js ''7'')
     = Some timeout_badge"
proof -
  have e: "tr_status_el (addTracerouteResult example_tr empty_page) (js ''7'') \<noteq> None"
    by (simp add: addTracerouteResult_def example_tr_def)
  have t: "tr_status_el (show_timeout (js ''7'') (addTracerouteResult example_tr empty_page))
             (js ''7'') = Some timeout_badge"
    using e by (rule show_timeout_status)
  show ?thesis
    using t
      traceroute_result_after_timeout
        [OF t, of "example_tr\<lparr>tr_status := js ''complete''\<rparr>" "[] :: int node list"]
      traceroute_result_after_timeout
        [OF t, of "example_tr\<lparr>tr_id := js ''8''\<rparr>" "[] :: int node list"]
    by (simp add: example_tr_def js_def cu_def)
qed

end
